theory Spec2Isabelle
  imports Complex_Main
begin

section \<open>Numbers of the source language\<close>

text \<open>
  The program is TypeScript; its numbers are IEEE doubles.  Finite values are modelled
  as \<^typ>\<open>real\<close> (rounding is abstracted away), and the places where the code can
  leave the finite numbers from finite inputs are written out: \<open>Math.sqrt\<close> of a
  negative number is \<open>NaN\<close> (the value \<open>None\<close> below), and the bounding box of
  \<open>focusOnLayer\<close> starts at \<open>\<plusminus>Infinity\<close> (the type \<open>jsnum\<close> further down).
  Signed zeros are not distinguished.
\<close>

type_synonym coord = "real \<times> real"

definition Math_atan2 :: "real \<Rightarrow> real \<Rightarrow> real" where
  "Math_atan2 y x =
     (if 0 < x then arctan (y / x)
      else if x < 0 then (if 0 \<le> y then arctan (y / x) + pi else arctan (y / x) - pi)
      else if 0 < y then pi / 2
      else if y < 0 then - (pi / 2)
      else 0)"

definition Math_sqrt :: "real \<Rightarrow> real option" where
  "Math_sqrt x = (if x < 0 then None else Some (sqrt x))"

section \<open>Geometry kernel\<close>

text \<open>\<open>calculateDistance\<close>: haversine formula, Earth radius 6371 km.  \<open>None\<close> is \<open>NaN\<close>.\<close>

definition calculateDistance :: "coord \<Rightarrow> coord \<Rightarrow> real option" where
  "calculateDistance point1 point2 =
     (let R = 6371;
          dLat = ((snd point2 - snd point1) * pi) / 180;
          dLon = ((fst point2 - fst point1) * pi) / 180;
          a = sin (dLat / 2) * sin (dLat / 2) +
              cos ((snd point1 * pi) / 180) * cos ((snd point2 * pi) / 180) *
              sin (dLon / 2) * sin (dLon / 2)
      in case Math_sqrt a of
           None \<Rightarrow> None
         | Some u \<Rightarrow>
             (case Math_sqrt (1 - a) of
                None \<Rightarrow> None
              | Some v \<Rightarrow> Some (R * (2 * Math_atan2 u v))))"

text \<open>\<open>calculateAzimuth\<close>: initial bearing in degrees, a negative raw value gets 360 added.\<close>

definition calculateAzimuth :: "coord \<Rightarrow> coord \<Rightarrow> real" where
  "calculateAzimuth point1 point2 =
     (let dLon = ((fst point2 - fst point1) * pi) / 180;
          lat1 = (snd point1 * pi) / 180;
          lat2 = (snd point2 * pi) / 180;
          y = sin dLon * cos lat2;
          x = cos lat1 * sin lat2 - sin lat1 * cos lat2 * cos dLon;
          azimuth = (Math_atan2 y x * 180) / pi
      in if azimuth < 0 then azimuth + 360 else azimuth)"

text \<open>\<open>calculatePolygonArea\<close>: the loop over consecutive pairs of the ring.\<close>

fun area_sum :: "coord list \<Rightarrow> real \<Rightarrow> real" where
  "area_sum (p1 # p2 # ps) area =
     area_sum (p2 # ps)
       (area + (((fst p2 - fst p1) * (snd p2 + snd p1) * pi) / 180) * 6371 * 6371 *
               cos ((((snd p1 + snd p2) / 2) * pi) / 180))"
| "area_sum _ area = area"

definition calculatePolygonArea :: "coord list \<Rightarrow> real" where
  "calculatePolygonArea polygon = \<bar>area_sum polygon 0\<bar> / 2"

text \<open>
  \<open>createSectorPolygon\<close>: the \<open>while\<close> loop that pushes the end angle past the start
  angle, then the centre followed by the arc points for \<open>i = 0 .. numPoints\<close>.
\<close>

function normalizeEndAngle :: "real \<Rightarrow> real \<Rightarrow> real" where
  "normalizeEndAngle normalizedEndAngle startAngle =
     (if normalizedEndAngle \<le> startAngle
      then normalizeEndAngle (normalizedEndAngle + 2 * pi) startAngle
      else normalizedEndAngle)"
  by pat_completeness auto
termination
proof (relation "measure (\<lambda>(e, s). nat (\<lfloor>(s - e) / (2 * pi)\<rfloor> + 1))", goal_cases)
  case 1
  show ?case by simp
next
  case (2 e s)
  have "(s - (e + 2 * pi)) / (2 * pi) = (s - e) / (2 * pi) - 1"
    by (simp add: field_simps)
  then have fl: "\<lfloor>(s - (e + 2 * pi)) / (2 * pi)\<rfloor> = \<lfloor>(s - e) / (2 * pi)\<rfloor> - 1"
    by simp
  from 2 have "0 \<le> (s - e) / (2 * pi)" by simp
  then have "0 \<le> \<lfloor>(s - e) / (2 * pi)\<rfloor>" by simp
  with fl show ?case by simp
qed

declare normalizeEndAngle.simps [simp del]

definition numPoints :: nat where
  "numPoints = 32"

definition arcAngle :: "real \<Rightarrow> real \<Rightarrow> nat \<Rightarrow> real" where
  "arcAngle startAngle normalizedEndAngle i =
     startAngle + (normalizedEndAngle - startAngle) * (real i / real numPoints)"

definition arcPoint :: "coord \<Rightarrow> real \<Rightarrow> real \<Rightarrow> coord" where
  "arcPoint center radius angle =
     (fst center + radius * cos angle, snd center + radius * sin angle)"

definition createSectorPolygon :: "coord \<Rightarrow> real \<Rightarrow> real \<Rightarrow> real \<Rightarrow> coord list" where
  "createSectorPolygon center radius startAngle endAngle =
     (let normalizedEndAngle = normalizeEndAngle endAngle startAngle
      in [center] @
         map (\<lambda>i. arcPoint center radius (arcAngle startAngle normalizedEndAngle i))
             [0 ..< numPoints + 1])"

section \<open>Data model\<close>

datatype error = TypeError

datatype layer_kind =
  Type_point | Type_polygon | Type_line | Type_sector | Type_distance | Type_area | Type_azimuth

datatype draw_mode =
  Mode_none | Mode_point | Mode_polygon | Mode_line | Mode_sector | Mode_distance | Mode_area
  | Mode_azimuth

datatype display_mode = Circle | Icon

datatype icon_kind = Marker | Pin | Wifi | CircleIcon

text \<open>
  An element of \<open>Layer.data\<close>: an object that may carry \<open>position\<close>, \<open>polygon\<close>
  or \<open>path\<close>; an absent property is \<open>None\<close> (reading into it raises \<open>TypeError\<close>).
\<close>

record item =
  position :: "coord option"
  polygon :: "coord list option"
  path :: "coord list option"

text \<open>
  A measurement string \<open>`${v.toFixed(n)}suffix`\<close> is kept as its parts; \<open>FixedNaN\<close>
  is the text of a \<open>NaN\<close> value.
\<close>

datatype measurement = Fixed real nat string | FixedNaN string

record 'd layer =
  layer_id :: string
  name :: string
  layer_type :: layer_kind
  data :: "'d list"
  color :: string
  icon :: string
  visible :: bool
  radius :: "nat option"
  measurement :: "measurement option"
  isUploaded :: "bool option"
  pointDisplayMode :: "display_mode option"
  iconType :: "icon_kind option"
  customizeOpen :: "bool option"
  folder :: "string option"

datatype jsnum = Fin real | PInf | NInf | NaN

record view_state =
  longitude :: jsnum
  latitude :: jsnum
  zoom :: real
  pitch :: real
  bearing :: real

record app_state =
  layers :: "item layer list"
  drawMode :: draw_mode
  drawingPoints :: "coord list"
  sectorCenter :: "coord option"
  sectorRadius :: real
  sectorStartAngle :: real
  viewState :: view_state
  layerIdCounter :: nat
  isDragging :: bool
  draggedLayerId :: "string option"
  dragStartPosition :: "coord option"
  originalLayerData :: "item list option"

text \<open>The initial values of the component's state (\<open>useState\<close>, \<open>useRef\<close>).\<close>

definition INDIA_CENTER :: coord where
  "INDIA_CENTER = (78.9629, 20.5937)"

definition initialState :: app_state where
  "initialState =
     \<lparr>layers = [], drawMode = Mode_none, drawingPoints = [], sectorCenter = None,
      sectorRadius = 0, sectorStartAngle = 0,
      viewState = \<lparr>longitude = Fin (fst INDIA_CENTER), latitude = Fin (snd INDIA_CENTER),
                   zoom = 5, pitch = 0, bearing = 0\<rparr>,
      layerIdCounter = 0, isDragging = False, draggedLayerId = None,
      dragStartPosition = None, originalLayerData = None\<rparr>"

text \<open>The toolbar buttons: \<open>setDrawMode(drawMode === m ? "none" : m)\<close>.\<close>

definition toggleDrawMode :: "draw_mode \<Rightarrow> app_state \<Rightarrow> app_state" where
  "toggleDrawMode m s = s\<lparr>drawMode := (if drawMode s = m then Mode_none else m)\<rparr>"

text \<open>Decimal text of a natural number, as a template string prints it.\<close>

definition digit_char :: "nat \<Rightarrow> char" where
  "digit_char d = char_of (48 + d)"

function string_of_nat :: "nat \<Rightarrow> string" where
  "string_of_nat n =
     (if n < 10 then [digit_char n] else string_of_nat (n div 10) @ [digit_char (n mod 10)])"
  by pat_completeness auto
termination
  by (relation "measure (\<lambda>n. n)") auto

declare string_of_nat.simps [simp del]

text \<open>
  \<open>generateLayerId\<close>: \<open>`layer-${layerIdCounter.current++}-${Date.now()}`\<close>; the clock
  reading is the argument \<open>now\<close>.
\<close>

definition generateLayerId :: "nat \<Rightarrow> app_state \<Rightarrow> string \<times> app_state" where
  "generateLayerId now s =
     (''layer-'' @ string_of_nat (layerIdCounter s) @ ''-'' @ string_of_nat now,
      s\<lparr>layerIdCounter := layerIdCounter s + 1\<rparr>)"

section \<open>Drawing session: \<open>handleMapClick\<close>\<close>

text \<open>
  The click test of the polygon and area branches: planar distance in degrees of the click
  to the first vertex against \<open>0.05 * Math.max(0.1, 1 / Math.pow(2, zoom - 5))\<close>.  The
  argument of \<open>Math.sqrt\<close> is a sum of squares, so the root is the real one.
\<close>

definition distanceInDegrees :: "coord \<Rightarrow> coord \<Rightarrow> real" where
  "distanceInDegrees coordinate firstPoint =
     sqrt ((fst coordinate - fst firstPoint)\<^sup>2 + (snd coordinate - snd firstPoint)\<^sup>2)"

definition zoomFactor :: "real \<Rightarrow> real" where
  "zoomFactor z = max 0.1 (1 / (2 powr (z - 5)))"

definition tolerance :: "real \<Rightarrow> real" where
  "tolerance z = 0.05 * zoomFactor z"

definition clickPoint :: "nat \<Rightarrow> coord \<Rightarrow> app_state \<Rightarrow> app_state" where
  "clickPoint now coordinate s =
     (let (lid, s1) = generateLayerId now s;
          newLayer = \<lparr>layer_id = lid,
                      name = ''Point '' @ string_of_nat (length (layers s) + 1),
                      layer_type = Type_point,
                      data = [\<lparr>position = Some coordinate, polygon = None, path = None\<rparr>],
                      color = ''#ff0000'', icon = ''mdi:map-marker'', visible = True,
                      radius = Some 12, measurement = None, isUploaded = None,
                      pointDisplayMode = Some Circle, iconType = Some Marker,
                      customizeOpen = None, folder = Some ''drawn''\<rparr>
      in s1\<lparr>layers := layers s @ [newLayer], drawMode := Mode_none\<rparr>)"

definition clickPolygon :: "nat \<Rightarrow> coord \<Rightarrow> app_state \<Rightarrow> app_state" where
  "clickPolygon now coordinate s =
     (let newPoints = drawingPoints s @ [coordinate]
      in if length (drawingPoints s) \<ge> 2 \<and>
            distanceInDegrees coordinate (drawingPoints s ! 0) < tolerance (zoom (viewState s))
         then
           (let closedPoints = newPoints @ [newPoints ! 0];
                (lid, s1) = generateLayerId now s;
                newLayer = \<lparr>layer_id = lid,
                            name = ''Polygon '' @ string_of_nat (length (layers s) + 1),
                            layer_type = Type_polygon,
                            data = [\<lparr>position = None, polygon = Some closedPoints, path = None\<rparr>],
                            color = ''#00ff00'', icon = ''mdi:vector-square'', visible = True,
                            radius = None, measurement = None, isUploaded = None,
                            pointDisplayMode = None, iconType = None,
                            customizeOpen = None, folder = Some ''drawn''\<rparr>
            in s1\<lparr>layers := layers s @ [newLayer], drawingPoints := [], drawMode := Mode_none\<rparr>)
         else s\<lparr>drawingPoints := newPoints\<rparr>)"

definition clickLine :: "nat \<Rightarrow> coord \<Rightarrow> app_state \<Rightarrow> app_state" where
  "clickLine now coordinate s =
     (let newPoints = drawingPoints s @ [coordinate]
      in if length newPoints = 2
         then
           (let (lid, s1) = generateLayerId now s;
                newLayer = \<lparr>layer_id = lid,
                            name = ''Line '' @ string_of_nat (length (layers s) + 1),
                            layer_type = Type_line,
                            data = [\<lparr>position = None, polygon = None, path = Some newPoints\<rparr>],
                            color = ''#ff0000'', icon = ''mdi:vector-line'', visible = True,
                            radius = None, measurement = None, isUploaded = None,
                            pointDisplayMode = None, iconType = None,
                            customizeOpen = None, folder = Some ''drawn''\<rparr>
            in s1\<lparr>layers := layers s @ [newLayer], drawingPoints := [], drawMode := Mode_none\<rparr>)
         else s\<lparr>drawingPoints := newPoints\<rparr>)"

text \<open>
  The sector branch.  \<open>sectorCenter\<close> is \<open>null\<close> until the first click; the radius and
  the start angle are numbers whose initial value \<open>0\<close> is what the branch tests.
\<close>

definition clickSector :: "nat \<Rightarrow> coord \<Rightarrow> app_state \<Rightarrow> app_state" where
  "clickSector now coordinate s =
     (case sectorCenter s of
        None \<Rightarrow> s\<lparr>sectorCenter := Some coordinate\<rparr>
      | Some center \<Rightarrow>
          if sectorRadius s = 0 then
            s\<lparr>sectorRadius :=
                 sqrt ((fst coordinate - fst center)\<^sup>2 + (snd coordinate - snd center)\<^sup>2)\<rparr>
          else if sectorStartAngle s = 0 then
            s\<lparr>sectorStartAngle :=
                 Math_atan2 (snd coordinate - snd center) (fst coordinate - fst center)\<rparr>
          else
            (let endAngle = Math_atan2 (snd coordinate - snd center) (fst coordinate - fst center);
                 sectorPolygon =
                   createSectorPolygon center (sectorRadius s) (sectorStartAngle s) endAngle;
                 (lid, s1) = generateLayerId now s;
                 newLayer = \<lparr>layer_id = lid,
                             name = ''Sector '' @ string_of_nat (length (layers s) + 1),
                             layer_type = Type_sector,
                             data = [\<lparr>position = None, polygon = Some sectorPolygon, path = None\<rparr>],
                             color = ''#ff8800'', icon = ''mdi:pie-chart'', visible = True,
                             radius = None,
                             measurement =
                               Some (Fixed \<bar>((endAngle - sectorStartAngle s) * 180) / pi\<bar> 1
                                       [CHR 0xB0]),
                             isUploaded = None,
                             pointDisplayMode = None, iconType = None,
                             customizeOpen = None, folder = None\<rparr>
             in s1\<lparr>layers := layers s @ [newLayer], sectorCenter := None, sectorRadius := 0,
                   sectorStartAngle := 0, drawMode := Mode_none\<rparr>))"

definition clickDistance :: "nat \<Rightarrow> coord \<Rightarrow> app_state \<Rightarrow> app_state" where
  "clickDistance now coordinate s =
     (let newPoints = drawingPoints s @ [coordinate]
      in if length newPoints = 2
         then
           (let distance = calculateDistance (newPoints ! 0) (newPoints ! 1);
                (lid, s1) = generateLayerId now s;
                newLayer = \<lparr>layer_id = lid,
                            name = ''Distance '' @ string_of_nat (length (layers s) + 1),
                            layer_type = Type_distance,
                            data = [\<lparr>position = None, polygon = None, path = Some newPoints\<rparr>],
                            color = ''#0000ff'', icon = ''mdi:ruler'', visible = True,
                            radius = None,
                            measurement =
                              Some (case distance of
                                      Some d \<Rightarrow> Fixed d 2 '' km''
                                    | None \<Rightarrow> FixedNaN '' km''),
                            isUploaded = None,
                            pointDisplayMode = None, iconType = None,
                            customizeOpen = None, folder = None\<rparr>
            in s1\<lparr>layers := layers s @ [newLayer], drawingPoints := [], drawMode := Mode_none\<rparr>)
         else s\<lparr>drawingPoints := newPoints\<rparr>)"

definition clickArea :: "nat \<Rightarrow> coord \<Rightarrow> app_state \<Rightarrow> app_state" where
  "clickArea now coordinate s =
     (let newPoints = drawingPoints s @ [coordinate]
      in if length (drawingPoints s) \<ge> 2 \<and>
            distanceInDegrees coordinate (drawingPoints s ! 0) < tolerance (zoom (viewState s))
         then
           (let closedPoints = newPoints @ [newPoints ! 0];
                area = calculatePolygonArea closedPoints;
                (lid, s1) = generateLayerId now s;
                newLayer = \<lparr>layer_id = lid,
                            name = ''Area '' @ string_of_nat (length (layers s) + 1),
                            layer_type = Type_area,
                            data = [\<lparr>position = None, polygon = Some closedPoints, path = None\<rparr>],
                            color = ''#00ffff'', icon = ''mdi:vector-square'', visible = True,
                            radius = None,
                            measurement = Some (Fixed area 2 ('' km'' @ [CHR 0xB2])),
                            isUploaded = None,
                            pointDisplayMode = None, iconType = None,
                            customizeOpen = None, folder = None\<rparr>
            in s1\<lparr>layers := layers s @ [newLayer], drawingPoints := [], drawMode := Mode_none\<rparr>)
         else s\<lparr>drawingPoints := newPoints\<rparr>)"

definition clickAzimuth :: "nat \<Rightarrow> coord \<Rightarrow> app_state \<Rightarrow> app_state" where
  "clickAzimuth now coordinate s =
     (let newPoints = drawingPoints s @ [coordinate]
      in if length newPoints = 2
         then
           (let azimuth = calculateAzimuth (newPoints ! 0) (newPoints ! 1);
                (lid, s1) = generateLayerId now s;
                newLayer = \<lparr>layer_id = lid,
                            name = ''Azimuth '' @ string_of_nat (length (layers s) + 1),
                            layer_type = Type_azimuth,
                            data = [\<lparr>position = None, polygon = None, path = Some newPoints\<rparr>],
                            color = ''#ff00ff'', icon = ''mdi:compass'', visible = True,
                            radius = None,
                            measurement = Some (Fixed azimuth 1 [CHR 0xB0]),
                            isUploaded = None,
                            pointDisplayMode = None, iconType = None,
                            customizeOpen = None, folder = None\<rparr>
            in s1\<lparr>layers := layers s @ [newLayer], drawingPoints := [], drawMode := Mode_none\<rparr>)
         else s\<lparr>drawingPoints := newPoints\<rparr>)"

text \<open>
  \<open>handleMapClick\<close>: nothing happens in mode \<open>none\<close>; otherwise the coordinate of the
  event is read (\<open>info.coordinate[0]\<close> raises when the event carries none) and the
  branch of the current mode runs.  \<open>now\<close> is the clock reading of the event.
\<close>

definition handleMapClick :: "nat \<Rightarrow> coord option \<Rightarrow> app_state \<Rightarrow> error + app_state" where
  "handleMapClick now info s =
     (if drawMode s = Mode_none then Inr s
      else case info of
        None \<Rightarrow> Inl TypeError
      | Some coordinate \<Rightarrow>
          Inr (case drawMode s of
                 Mode_none \<Rightarrow> s
               | Mode_point \<Rightarrow> clickPoint now coordinate s
               | Mode_polygon \<Rightarrow> clickPolygon now coordinate s
               | Mode_line \<Rightarrow> clickLine now coordinate s
               | Mode_sector \<Rightarrow> clickSector now coordinate s
               | Mode_distance \<Rightarrow> clickDistance now coordinate s
               | Mode_area \<Rightarrow> clickArea now coordinate s
               | Mode_azimuth \<Rightarrow> clickAzimuth now coordinate s))"

text \<open>A run of click events, stopping at the first exception.\<close>

fun clicks :: "(nat \<times> coord option) list \<Rightarrow> app_state \<Rightarrow> error + app_state" where
  "clicks [] s = Inr s"
| "clicks ((now, info) # es) s =
     (case handleMapClick now info s of Inl e \<Rightarrow> Inl e | Inr s' \<Rightarrow> clicks es s')"

section \<open>Viewport fitter: \<open>focusOnLayer\<close>\<close>

text \<open>
  The bounding box starts at \<open>Infinity\<close> and \<open>-Infinity\<close>, so its arithmetic is that
  of doubles with their special values: \<open>Math.min\<close>, \<open>Math.max\<close>, \<open>+\<close>, \<open>-\<close>,
  \<open>/ 2\<close> and \<open><\<close> as ECMAScript defines them there.
\<close>

fun Math_min :: "jsnum \<Rightarrow> jsnum \<Rightarrow> jsnum" where
  "Math_min NaN b = NaN"
| "Math_min a NaN = NaN"
| "Math_min NInf b = NInf"
| "Math_min a NInf = NInf"
| "Math_min PInf b = b"
| "Math_min a PInf = a"
| "Math_min (Fin a) (Fin b) = Fin (min a b)"

fun Math_max :: "jsnum \<Rightarrow> jsnum \<Rightarrow> jsnum" where
  "Math_max NaN b = NaN"
| "Math_max a NaN = NaN"
| "Math_max PInf b = PInf"
| "Math_max a PInf = PInf"
| "Math_max NInf b = b"
| "Math_max a NInf = a"
| "Math_max (Fin a) (Fin b) = Fin (max a b)"

fun js_add :: "jsnum \<Rightarrow> jsnum \<Rightarrow> jsnum" where
  "js_add NaN b = NaN"
| "js_add a NaN = NaN"
| "js_add PInf NInf = NaN"
| "js_add NInf PInf = NaN"
| "js_add PInf b = PInf"
| "js_add a PInf = PInf"
| "js_add NInf b = NInf"
| "js_add a NInf = NInf"
| "js_add (Fin a) (Fin b) = Fin (a + b)"

fun js_neg :: "jsnum \<Rightarrow> jsnum" where
  "js_neg NaN = NaN"
| "js_neg PInf = NInf"
| "js_neg NInf = PInf"
| "js_neg (Fin a) = Fin (- a)"

definition js_sub :: "jsnum \<Rightarrow> jsnum \<Rightarrow> jsnum" where
  "js_sub a b = js_add a (js_neg b)"

fun js_half :: "jsnum \<Rightarrow> jsnum" where
  "js_half (Fin a) = Fin (a / 2)"
| "js_half a = a"

fun js_less :: "jsnum \<Rightarrow> real \<Rightarrow> bool" where
  "js_less NaN c = False"
| "js_less PInf c = False"
| "js_less NInf c = True"
| "js_less (Fin a) c = (a < c)"

record bbox =
  minLng :: jsnum
  maxLng :: jsnum
  minLat :: jsnum
  maxLat :: jsnum

definition extend :: "bbox \<Rightarrow> coord \<Rightarrow> bbox" where
  "extend b point =
     (let (lng, lat) = point
      in \<lparr>minLng = Math_min (minLng b) (Fin lng), maxLng = Math_max (maxLng b) (Fin lng),
          minLat = Math_min (minLat b) (Fin lat), maxLat = Math_max (maxLat b) (Fin lat)\<rparr>)"

definition bboxItem :: "layer_kind \<Rightarrow> bbox \<Rightarrow> item \<Rightarrow> error + bbox" where
  "bboxItem t b it =
     (if t = Type_point then
        (case position it of None \<Rightarrow> Inl TypeError | Some p \<Rightarrow> Inr (extend b p))
      else if t = Type_polygon \<or> t = Type_area \<or> t = Type_sector then
        (case polygon it of None \<Rightarrow> Inl TypeError | Some ps \<Rightarrow> Inr (foldl extend b ps))
      else if t = Type_line \<or> t = Type_distance \<or> t = Type_azimuth then
        (case path it of None \<Rightarrow> Inl TypeError | Some ps \<Rightarrow> Inr (foldl extend b ps))
      else Inr b)"

fun bboxItems :: "layer_kind \<Rightarrow> item list \<Rightarrow> bbox \<Rightarrow> error + bbox" where
  "bboxItems t [] b = Inr b"
| "bboxItems t (it # its) b =
     (case bboxItem t b it of Inl e \<Rightarrow> Inl e | Inr b' \<Rightarrow> bboxItems t its b')"

definition focusOnLayer :: "string \<Rightarrow> app_state \<Rightarrow> error + app_state" where
  "focusOnLayer layerId s =
     (case find (\<lambda>l. layer_id l = layerId) (layers s) of
        None \<Rightarrow> Inr s
      | Some layer \<Rightarrow>
          (case bboxItems (layer_type layer) (data layer)
                  \<lparr>minLng = PInf, maxLng = NInf, minLat = PInf, maxLat = NInf\<rparr> of
             Inl e \<Rightarrow> Inl e
           | Inr b \<Rightarrow>
               (let centerLng = js_half (js_add (minLng b) (maxLng b));
                    centerLat = js_half (js_add (minLat b) (maxLat b));
                    lngDiff = js_sub (maxLng b) (minLng b);
                    latDiff = js_sub (maxLat b) (minLat b);
                    maxDiff = Math_max lngDiff latDiff;
                    up = (isUploaded layer = Some True);
                    zoom0 =
                      (if length (data layer) = 1 \<and> layer_type layer = Type_point
                       then (if up then 15 else 17)
                       else if js_less maxDiff 0.001 then (if up then 16 else 18)
                       else if js_less maxDiff 0.01 then (if up then 15 else 17)
                       else if js_less maxDiff 0.1 then (if up then 13 else 15)
                       else if js_less maxDiff 0.5 then (if up then 11 else 13)
                       else if js_less maxDiff 2 then (if up then 9 else 11)
                       else if js_less maxDiff 10 then (if up then 7 else 9)
                       else (if up then 5 else 7));
                    zoom1 =
                      (if layer_type layer = Type_point \<and> length (data layer) > 1
                       then max 1 (min 20 (zoom0 - 2))
                       else max 1 (min 20 (zoom0 - 1)))
                in Inr (s\<lparr>viewState :=
                            \<lparr>longitude = centerLng, latitude = centerLat, zoom = zoom1,
                             pitch = 0, bearing = 0\<rparr>\<rparr>))))"

section \<open>Drag-translate engine\<close>



fun map_err :: "('a \<Rightarrow> error + 'b) \<Rightarrow> 'a list \<Rightarrow> error + 'b list" where
  "map_err f [] = Inr []"
| "map_err f (x # xs) =
     (case f x of
        Inl e \<Rightarrow> Inl e
      | Inr y \<Rightarrow> (case map_err f xs of Inl e \<Rightarrow> Inl e | Inr ys \<Rightarrow> Inr (y # ys)))"

definition shift :: "real \<Rightarrow> real \<Rightarrow> coord \<Rightarrow> coord" where
  "shift totalDeltaLng totalDeltaLat point = (fst point + totalDeltaLng, snd point + totalDeltaLat)"

definition translateItem :: "layer_kind \<Rightarrow> real \<Rightarrow> real \<Rightarrow> item \<Rightarrow> error + item" where
  "translateItem t totalDeltaLng totalDeltaLat it =
     (if t = Type_point then
        (case position it of
           None \<Rightarrow> Inl TypeError
         | Some p \<Rightarrow> Inr (it\<lparr>position := Some (shift totalDeltaLng totalDeltaLat p)\<rparr>))
      else if t = Type_polygon \<or> t = Type_sector \<or> t = Type_area then
        (case polygon it of
           None \<Rightarrow> Inl TypeError
         | Some ps \<Rightarrow> Inr (it\<lparr>polygon := Some (map (shift totalDeltaLng totalDeltaLat) ps)\<rparr>))
      else if t = Type_distance \<or> t = Type_azimuth \<or> t = Type_line then
        (case path it of
           None \<Rightarrow> Inl TypeError
         | Some ps \<Rightarrow> Inr (it\<lparr>path := Some (map (shift totalDeltaLng totalDeltaLat) ps)\<rparr>))
      else Inr it)"

definition dragLayer ::
  "string \<Rightarrow> item list \<Rightarrow> real \<Rightarrow> real \<Rightarrow> item layer \<Rightarrow> error + item layer" where
  "dragLayer draggedId original totalDeltaLng totalDeltaLat l =
     (if layer_id l = draggedId then
        (case map_err (translateItem (layer_type l) totalDeltaLng totalDeltaLat) original of
           Inl e \<Rightarrow> Inl e
         | Inr newData \<Rightarrow> Inr (l\<lparr>data := newData\<rparr>))
      else Inr l)"

text \<open>
  \<open>handleDrag\<close>: a move event with the coordinate under the pointer, if any.  An empty
  string as dragged id is falsy; arrays are truthy also when empty.
\<close>

definition handleDrag :: "coord option \<Rightarrow> app_state \<Rightarrow> error + app_state" where
  "handleDrag info s =
     (case (draggedLayerId s, dragStartPosition s, originalLayerData s, info) of
        (Some draggedId, Some start, Some original, Some coordinate) \<Rightarrow>
          if isDragging s \<and> draggedId \<noteq> [] then
            (case find (\<lambda>l. layer_id l = draggedId) (layers s) of
               None \<Rightarrow> Inr s
             | Some layer \<Rightarrow>
                 (let totalDeltaLng = fst coordinate - fst start;
                      totalDeltaLat = snd coordinate - snd start
                  in case map_err (dragLayer draggedId original totalDeltaLng totalDeltaLat)
                            (layers s) of
                       Inl e \<Rightarrow> Inl e
                     | Inr ls \<Rightarrow> Inr (s\<lparr>layers := ls\<rparr>)))
          else Inr s
      | _ \<Rightarrow> Inr s)"

definition handleDragEnd :: "app_state \<Rightarrow> app_state" where
  "handleDragEnd s =
     s\<lparr>isDragging := False, draggedLayerId := None, dragStartPosition := None,
       originalLayerData := None\<rparr>"


section \<open>Live overlay: \<open>networkNodesLayer\<close>\<close>

text \<open>
  The feed payload is whatever \<open>JSON.parse(event.data).nodes\<close> gave, or \<open>null\<close>
  before the first message: a value of the source language.
\<close>

datatype json =
  JNull | JUndefined | JBool bool | JNum real | JStr string | JArr "json list"
  | JObj "(string \<times> json) list"


text \<open>
  Reading the property \<open>longitude\<close> or \<open>latitude\<close> of a value: \<open>TypeError\<close> on
  \<open>null\<close> and \<open>undefined\<close>, the stored value on an object that has it, \<open>undefined\<close>
  otherwise.
\<close>

fun get_prop :: "json \<Rightarrow> string \<Rightarrow> error + json" where
  "get_prop JNull k = Inl TypeError"
| "get_prop JUndefined k = Inl TypeError"
| "get_prop (JObj kvs) k = Inr (case map_of kvs k of None \<Rightarrow> JUndefined | Some v \<Rightarrow> v)"
| "get_prop v k = Inr JUndefined"

record net_item =
  net_position :: "json \<times> json"
  node :: json


definition nodeItem :: "json \<Rightarrow> error + net_item" where
  "nodeItem nd =
     (case get_prop nd ''longitude'' of
        Inl e \<Rightarrow> Inl e
      | Inr lng \<Rightarrow>
          (case get_prop nd ''latitude'' of
             Inl e \<Rightarrow> Inl e
           | Inr lat \<Rightarrow> Inr \<lparr>net_position = (lng, lat), node = nd\<rparr>))"


section \<open>Rendered primitives of the layer store\<close>

text \<open>
  \<open>hexToRgb\<close>: the pattern an optional \<open>#\<close>, then three groups of two hexadecimal digits
  (either case) and nothing else; black when the text does not have that form.
\<close>

definition hexDigit :: "char \<Rightarrow> nat option" where
  "hexDigit c =
     (let n = of_char c :: nat
      in if 48 \<le> n \<and> n \<le> 57 then Some (n - 48)
         else if 97 \<le> n \<and> n \<le> 102 then Some (n - 87)
         else if 65 \<le> n \<and> n \<le> 70 then Some (n - 55)
         else None)"

definition hexToRgb :: "string \<Rightarrow> nat list" where
  "hexToRgb hex =
     (case map hexDigit (case hex of CHR ''#'' # rest \<Rightarrow> rest | _ \<Rightarrow> hex) of
        [Some a, Some b, Some c, Some d, Some e, Some f] \<Rightarrow>
          [16 * a + b, 16 * c + d, 16 * e + f]
      | _ \<Rightarrow> [0, 0, 0])"

datatype deck_kind = ScatterplotLayer | IconLayer | PolygonLayer | PathLayer

text \<open>
  A rendered primitive: the constructor, its \<open>id\<close>, its \<open>data\<close>, the colour accessor's
  value, the radius, size or width, the icon of an \<open>IconLayer\<close>, and \<open>pickable\<close>.
\<close>

record deck_layer =
  deck_kind :: deck_kind
  deck_id :: string
  deck_data :: "item list"
  deck_color :: "nat list"
  deck_size :: nat
  deck_icon :: "icon_kind option"
  pickable :: bool

definition radiusOr12 :: "item layer \<Rightarrow> nat" where
  "radiusOr12 l = (case radius l of None \<Rightarrow> 12 | Some r \<Rightarrow> if r = 0 then 12 else r)"

text \<open>The body of the \<open>forEach\<close>: the primitives one layer pushes.\<close>

definition layerPrimitives :: "item layer \<Rightarrow> error + deck_layer list" where
  "layerPrimitives l =
     (let rgb = hexToRgb (color l)
      in case layer_type l of
        Type_point \<Rightarrow>
          (if (case pointDisplayMode l of None \<Rightarrow> Circle | Some m \<Rightarrow> m) = Circle then
             Inr [\<lparr>deck_kind = ScatterplotLayer,
                    deck_id = layer_id l @ ''-radius-'' @ string_of_nat (radiusOr12 l) @
                              ''-color-'' @ color l,
                    deck_data = data l, deck_color = rgb @ [255], deck_size = radiusOr12 l,
                    deck_icon = None, pickable = True\<rparr>]
           else
             Inr [\<lparr>deck_kind = IconLayer,
                    deck_id = layer_id l @ ''-icon-radius-'' @ string_of_nat (radiusOr12 l) @
                              ''-color-'' @ color l,
                    deck_data = data l, deck_color = rgb @ [255],
                    deck_size = radiusOr12 l * 2,
                    deck_icon = Some (case iconType l of None \<Rightarrow> Marker | Some k \<Rightarrow> k),
                    pickable = True\<rparr>])
      | Type_line \<Rightarrow>
          Inr [\<lparr>deck_kind = PathLayer, deck_id = layer_id l @ ''-color-'' @ color l,
                 deck_data = data l, deck_color = rgb @ [255], deck_size = 3,
                 deck_icon = None, pickable = True\<rparr>]
      | Type_distance \<Rightarrow>
          Inr [\<lparr>deck_kind = PathLayer, deck_id = layer_id l @ ''-color-'' @ color l,
                 deck_data = data l, deck_color = rgb @ [255], deck_size = 3,
                 deck_icon = None, pickable = True\<rparr>]
      | Type_azimuth \<Rightarrow>
          Inr [\<lparr>deck_kind = PathLayer, deck_id = layer_id l @ ''-color-'' @ color l,
                 deck_data = data l, deck_color = rgb @ [255], deck_size = 3,
                 deck_icon = None, pickable = True\<rparr>]
      | _ \<Rightarrow>
          (let fill = \<lparr>deck_kind = PolygonLayer, deck_id = layer_id l @ ''-color-'' @ color l,
                       deck_data = data l, deck_color = rgb @ [128], deck_size = 0,
                       deck_icon = None, pickable = True\<rparr>
           in if layer_type l = Type_polygon \<or> layer_type l = Type_area then
                (case data l of
                   [] \<Rightarrow> Inl TypeError
                 | first # _ \<Rightarrow>
                     (case polygon first of
                        None \<Rightarrow> Inl TypeError
                      | Some ring \<Rightarrow>
                          Inr [fill,
                               \<lparr>deck_kind = ScatterplotLayer, deck_id = layer_id l @ ''-vertices'',
                                deck_data =
                                  map (\<lambda>vertex. \<lparr>position = Some vertex, polygon = None,
                                                  path = None\<rparr>)
                                      (butlast ring),
                                deck_color = rgb @ [255], deck_size = 100,
                                deck_icon = None, pickable = False\<rparr>]))
              else Inr [fill]))"

text \<open>
  The user layers of a render pass:
  \<open>layers.filter((layer) => layer.visible).slice(0, 50).forEach(...)\<close>, pushing onto
  \<open>deckLayers\<close>; an exception in the body ends the pass.
\<close>

fun pushLayers :: "item layer list \<Rightarrow> deck_layer list \<Rightarrow> error + deck_layer list" where
  "pushLayers [] deckLayers = Inr deckLayers"
| "pushLayers (l # ls) deckLayers =
     (case layerPrimitives l of
        Inl e \<Rightarrow> Inl e
      | Inr ps \<Rightarrow> pushLayers ls (deckLayers @ ps))"

definition userDeckLayers :: "item layer list \<Rightarrow> deck_layer list \<Rightarrow> error + deck_layer list" where
  "userDeckLayers ls deckLayers = pushLayers (take 50 (filter visible ls)) deckLayers"

section \<open>Properties of the geometry kernel\<close>

subsection \<open>Distance\<close>








subsection \<open>Sector polygon\<close>











subsection \<open>Closing a polygon or an area\<close>

lemma tolerance_zoom5: "tolerance 5 = 1 / 20"
  by (simp add: tolerance_def zoomFactor_def)

lemma nth_first_append: "2 \<le> length xs \<Longrightarrow> (xs @ ys) ! 0 = xs ! 0"
  by (cases xs) simp_all

lemma clickPolygon_close:
  assumes "2 \<le> length (drawingPoints s)"
    and "distanceInDegrees c (drawingPoints s ! 0) < tolerance (zoom (viewState s))"
  shows "layers (clickPolygon now c s) = layers s @ [last (layers (clickPolygon now c s))]"
    and "layer_type (last (layers (clickPolygon now c s))) = Type_polygon"
    and "data (last (layers (clickPolygon now c s))) =
           [\<lparr>position = None,
             polygon = Some (drawingPoints s @ [c] @ [drawingPoints s ! 0]),
             path = None\<rparr>]"
    and "measurement (last (layers (clickPolygon now c s))) = None"
    and "drawingPoints (clickPolygon now c s) = []"
    and "drawMode (clickPolygon now c s) = Mode_none"
  using assms
  by (simp_all add: clickPolygon_def Let_def generateLayerId_def nth_first_append)









subsection \<open>Committed rings are closed\<close>

text \<open>
  A click commits at most one layer, at the end of the store; a polygon or area layer it
  commits holds one closed ring.
\<close>

lemma handleMapClick_commits:
  assumes "handleMapClick now info s = Inr s'"
  shows "layers s' = layers s \<or>
         (layers s' = layers s @ [last (layers s')] \<and> data (last (layers s')) \<noteq> [] \<and>
          (layer_type (last (layers s')) = Type_polygon \<or>
           layer_type (last (layers s')) = Type_area \<longrightarrow>
             (\<exists>ring. data (last (layers s')) =
                       [\<lparr>position = None, polygon = Some ring, path = None\<rparr>] \<and>
                     ring \<noteq> [] \<and> hd ring = last ring)))"
proof (cases "drawMode s")
  case Mode_none
  with assms show ?thesis by (simp add: handleMapClick_def)
next
  case Mode_point
  with assms show ?thesis
    by (cases info) (auto simp add: handleMapClick_def clickPoint_def Let_def generateLayerId_def)
next
  case Mode_polygon
  with assms show ?thesis
    by (cases info)
      (auto simp add: handleMapClick_def clickPolygon_def Let_def generateLayerId_def
         hd_append hd_conv_nth nth_append split: if_splits)
next
  case Mode_line
  with assms show ?thesis
    by (cases info)
      (auto simp add: handleMapClick_def clickLine_def Let_def generateLayerId_def
         split: if_splits)
next
  case Mode_sector
  with assms show ?thesis
    by (cases info)
      (auto simp add: handleMapClick_def clickSector_def Let_def generateLayerId_def
         split: if_splits option.splits)
next
  case Mode_distance
  with assms show ?thesis
    by (cases info)
      (auto simp add: handleMapClick_def clickDistance_def Let_def generateLayerId_def
         split: if_splits)
next
  case Mode_area
  with assms show ?thesis
    by (cases info)
      (auto simp add: handleMapClick_def clickArea_def Let_def generateLayerId_def
         hd_append hd_conv_nth nth_append split: if_splits)
next
  case Mode_azimuth
  with assms show ?thesis
    by (cases info)
      (auto simp add: handleMapClick_def clickAzimuth_def Let_def generateLayerId_def
         split: if_splits)
qed


lemma clicks_commit_closed:
  "clicks es s = Inr s' \<Longrightarrow>
     \<exists>new. layers s' = layers s @ new \<and>
       (\<forall>l \<in> set new.
          data l \<noteq> [] \<and>
          (layer_type l = Type_polygon \<or> layer_type l = Type_area \<longrightarrow>
             (\<exists>ring. data l = [\<lparr>position = None, polygon = Some ring, path = None\<rparr>] \<and>
                     ring \<noteq> [] \<and> hd ring = last ring)))"
proof (induction es arbitrary: s)
  case Nil
  then show ?case by simp
next
  case (Cons e es)
  obtain now info where e: "e = (now, info)" by (cases e)
  from Cons.prems e obtain s1 where
    step: "handleMapClick now info s = Inr s1" and rest: "clicks es s1 = Inr s'"
    by (auto split: sum.splits)
  from Cons.IH[OF rest] obtain new where
    new: "layers s' = layers s1 @ new"
      "\<forall>l \<in> set new.
          data l \<noteq> [] \<and>
          (layer_type l = Type_polygon \<or> layer_type l = Type_area \<longrightarrow>
             (\<exists>ring. data l = [\<lparr>position = None, polygon = Some ring, path = None\<rparr>] \<and>
                     ring \<noteq> [] \<and> hd ring = last ring))"
    by blast
  from handleMapClick_commits[OF step] show ?case
  proof
    assume "layers s1 = layers s"
    with new show ?thesis by auto
  next
    assume a: "layers s1 = layers s @ [last (layers s1)] \<and> data (last (layers s1)) \<noteq> [] \<and>
          (layer_type (last (layers s1)) = Type_polygon \<or>
           layer_type (last (layers s1)) = Type_area \<longrightarrow>
             (\<exists>ring. data (last (layers s1)) =
                       [\<lparr>position = None, polygon = Some ring, path = None\<rparr>] \<and>
                     ring \<noteq> [] \<and> hd ring = last ring))"
    from a new(1) have "layers s' = layers s @ (last (layers s1) # new)"
      by (metis append.assoc append_Cons append_Nil)
    moreover from a new(2) have
      "\<forall>l \<in> set (last (layers s1) # new).
          data l \<noteq> [] \<and>
          (layer_type l = Type_polygon \<or> layer_type l = Type_area \<longrightarrow>
             (\<exists>ring. data l = [\<lparr>position = None, polygon = Some ring, path = None\<rparr>] \<and>
                     ring \<noteq> [] \<and> hd ring = last ring))"
      by simp
    ultimately show ?thesis by blast
  qed
qed

lemma clicks_append:
  "clicks (es @ fs) s = (case clicks es s of Inl x \<Rightarrow> Inl x | Inr s1 \<Rightarrow> clicks fs s1)"
  by (induction es arbitrary: s) (auto split: sum.splits)

lemma four_vertex_session:
  "clicks [(t1, Some (0, 0)), (t2, Some (1, 0)), (t3, Some (1, 1)), (t4, Some (0, 1))]
     (toggleDrawMode Mode_polygon initialState) =
   Inr (initialState\<lparr>drawMode := Mode_polygon,
                      drawingPoints := [(0, 0), (1, 0), (1, 1), (0, 1)]\<rparr>)"
proof -
  have "1 < sqrt 2" by simp
  then have "\<not> sqrt 2 * 20 < 1" by linarith
  then show ?thesis
    by (simp add: toggleDrawMode_def initialState_def handleMapClick_def clickPolygon_def Let_def
          distanceInDegrees_def tolerance_def zoomFactor_def)
qed


lemma unit_square_closing_click:
  assumes near: "sqrt ((fst c - 0)\<^sup>2 + (snd c - 0)\<^sup>2) < 0.05"
  shows "\<exists>s'' l ring.
           clicks [(t1, Some (0, 0)), (t2, Some (1, 0)), (t3, Some (1, 1)), (t4, Some (0, 1)),
                   (t5, Some c)]
             (toggleDrawMode Mode_polygon initialState) = Inr s'' \<and>
           layers s'' = [l] \<and> layer_type l = Type_polygon \<and>
           data l = [\<lparr>position = None, polygon = Some ring, path = None\<rparr>] \<and>
           hd ring = (0, 0) \<and> last ring = (0, 0) \<and> drawMode s'' = Mode_none"
proof -
  let ?S = "initialState\<lparr>drawMode := Mode_polygon,
                      drawingPoints := [(0, 0), (1, 0), (1, 1), (0, 1)]\<rparr>"
  have len: "2 \<le> length (drawingPoints ?S)" by simp
  have tol: "distanceInDegrees c (drawingPoints ?S ! 0) < tolerance (zoom (viewState ?S))"
    using near by (simp add: distanceInDegrees_def tolerance_zoom5 initialState_def)
  note cl = clickPolygon_close[OF len tol, of t5]
  have run: "clicks ([(t1, Some (0, 0)), (t2, Some (1, 0)), (t3, Some (1, 1)), (t4, Some (0, 1))] @
                    [(t5, Some c)])
               (toggleDrawMode Mode_polygon initialState) = Inr (clickPolygon t5 c ?S)"
    unfolding clicks_append four_vertex_session
    by (simp add: handleMapClick_def)
  have l0: "layers ?S = []" by (simp add: initialState_def)
  show ?thesis
    apply (rule exI[of _ "clickPolygon t5 c ?S"])
    apply (rule exI[of _ "last (layers (clickPolygon t5 c ?S))"])
    apply (rule exI[of _ "drawingPoints ?S @ [c] @ [drawingPoints ?S ! 0]"])
    using run cl l0 by simp
qed


text \<open>
  C5.  Every layer a run of clicks commits has a non-empty item list, and every polygon or
  area layer among them holds one ring that is non-empty and whose first and last
  coordinates are equal.  In particular, the clicks \<open>(0,0)\<close>, \<open>(1,0)\<close>, \<open>(1,1)\<close>,
  \<open>(0,1)\<close> in polygon mode at zoom 5 followed by a click within \<open>0.05\<close> degrees of
  \<open>(0,0)\<close> commit one polygon layer whose ring starts and ends at \<open>(0,0)\<close>.
\<close>

theorem committed_rings_closed:
  "(clicks es s = Inr s' \<longrightarrow>
      (\<exists>new. layers s' = layers s @ new \<and>
         (\<forall>l \<in> set new.
            data l \<noteq> [] \<and>
            (layer_type l = Type_polygon \<or> layer_type l = Type_area \<longrightarrow>
               (\<exists>ring. data l = [\<lparr>position = None, polygon = Some ring, path = None\<rparr>] \<and>
                       ring \<noteq> [] \<and> hd ring = last ring))))) \<and>
   (sqrt ((fst c - 0)\<^sup>2 + (snd c - 0)\<^sup>2) < 0.05 \<longrightarrow>
      (\<exists>s'' l ring.
           clicks [(t1, Some (0, 0)), (t2, Some (1, 0)), (t3, Some (1, 1)), (t4, Some (0, 1)),
                   (t5, Some c)]
             (toggleDrawMode Mode_polygon initialState) = Inr s'' \<and>
           layers s'' = [l] \<and> layer_type l = Type_polygon \<and>
           data l = [\<lparr>position = None, polygon = Some ring, path = None\<rparr>] \<and>
           hd ring = (0, 0) \<and> last ring = (0, 0) \<and> drawMode s'' = Mode_none))"
  using clicks_commit_closed[of es s s'] unit_square_closing_click[of c t1 t2 t3 t4 t5]
  by blast

theorem committed_rings_closed_witness:
  "clicks [(0, Some (0, 0)), (1, Some (1, 0)), (2, Some (1 / 100, 0))]
      (toggleDrawMode Mode_polygon initialState) =
     Inr (projr (clicks [(0, Some (0, 0)), (1, Some (1, 0)), (2, Some (1 / 100, 0))]
                   (toggleDrawMode Mode_polygon initialState))) \<and>
   length (layers (projr (clicks [(0, Some (0, 0)), (1, Some (1, 0)), (2, Some (1 / 100, 0))]
                            (toggleDrawMode Mode_polygon initialState)))) = 1 \<and>
   layer_type (hd (layers (projr (clicks [(0, Some (0, 0)), (1, Some (1, 0)),
                                          (2, Some (1 / 100, 0))]
                                    (toggleDrawMode Mode_polygon initialState))))) =
     Type_polygon \<and>
   (\<exists>ring. data (hd (layers (projr (clicks [(0, Some (0, 0)), (1, Some (1, 0)),
                                            (2, Some (1 / 100, 0))]
                                      (toggleDrawMode Mode_polygon initialState))))) =
             [\<lparr>position = None, polygon = Some ring, path = None\<rparr>] \<and>
           ring \<noteq> [] \<and> hd ring = last ring) \<and>
   sqrt ((fst (1 / 100 :: real, 0 :: real) - 0)\<^sup>2 + (snd (1 / 100 :: real, 0 :: real) - 0)\<^sup>2)
     < 0.05 \<and>
   (\<exists>s'' l ring.
       clicks [(0, Some (0, 0)), (1, Some (1, 0)), (2, Some (1, 1)), (3, Some (0, 1)),
               (4, Some (1 / 100, 0))]
         (toggleDrawMode Mode_polygon initialState) = Inr s'' \<and>
       layers s'' = [l] \<and> layer_type l = Type_polygon \<and>
       data l = [\<lparr>position = None, polygon = Some ring, path = None\<rparr>] \<and>
       hd ring = (0, 0) \<and> last ring = (0, 0) \<and> drawMode s'' = Mode_none)"
proof -
  let ?E = "[(0 :: nat, Some (0 :: real, 0 :: real)), (1, Some (1, 0)), (2, Some (1 / 100, 0))]"
  let ?S0 = "toggleDrawMode Mode_polygon initialState"
  let ?R = "projr (clicks ?E ?S0)"
  have run: "clicks ?E ?S0 = Inr ?R"
    by (simp add: toggleDrawMode_def initialState_def handleMapClick_def clickPolygon_def Let_def
        generateLayerId_def tolerance_def zoomFactor_def distanceInDegrees_def real_sqrt_divide)
  have one: "length (layers ?R) = 1"
    by (simp add: toggleDrawMode_def initialState_def handleMapClick_def clickPolygon_def Let_def
        generateLayerId_def tolerance_def zoomFactor_def distanceInDegrees_def real_sqrt_divide)
  have ty: "layer_type (hd (layers ?R)) = Type_polygon"
    by (simp add: toggleDrawMode_def initialState_def handleMapClick_def clickPolygon_def Let_def
        generateLayerId_def tolerance_def zoomFactor_def distanceInDegrees_def real_sqrt_divide)
  have l0: "layers ?S0 = []" by (simp add: toggleDrawMode_def initialState_def)
  have near: "sqrt ((fst (1 / 100 :: real, 0 :: real) - 0)\<^sup>2 +
                    (snd (1 / 100 :: real, 0 :: real) - 0)\<^sup>2) < 0.05"
    by (simp add: real_sqrt_divide)
  note t = committed_rings_closed[of ?E ?S0 ?R "(1 / 100, 0)" 0 1 2 3 4]
  from t run obtain new where
    new: "layers ?R = layers ?S0 @ new"
    and cl: "\<forall>l \<in> set new.
            data l \<noteq> [] \<and>
            (layer_type l = Type_polygon \<or> layer_type l = Type_area \<longrightarrow>
               (\<exists>ring. data l = [\<lparr>position = None, polygon = Some ring, path = None\<rparr>] \<and>
                       ring \<noteq> [] \<and> hd ring = last ring))"
    by blast
  from new l0 have eq: "new = layers ?R" by simp
  from one have "layers ?R \<noteq> []" by auto
  then have "hd (layers ?R) \<in> set new" unfolding eq by simp
  with cl ty have ring: "\<exists>ring. data (hd (layers ?R)) =
             [\<lparr>position = None, polygon = Some ring, path = None\<rparr>] \<and>
           ring \<noteq> [] \<and> hd ring = last ring"
    by blast
  from t near have ex: "\<exists>s'' l ring.
       clicks [(0, Some (0, 0)), (1, Some (1, 0)), (2, Some (1, 1)), (3, Some (0, 1)),
               (4, Some (1 / 100, 0))]
         (toggleDrawMode Mode_polygon initialState) = Inr s'' \<and>
       layers s'' = [l] \<and> layer_type l = Type_polygon \<and>
       data l = [\<lparr>position = None, polygon = Some ring, path = None\<rparr>] \<and>
       hd ring = (0, 0) \<and> last ring = (0, 0) \<and> drawMode s'' = Mode_none"
    by blast
  from run one ty ring near ex show ?thesis by blast
qed

subsection \<open>Sector drawing\<close>













section \<open>Properties of the viewport fitter\<close>

text \<open>
  With no item the bounding box stays at its initial infinities: the centre is
  \<open>(Infinity + -Infinity) / 2 = NaN\<close>, the span \<open>-Infinity\<close> selects the first row of the
  zoom table, and the view state is replaced.
\<close>

lemma focusOnLayer_empty:
  assumes "find (\<lambda>l. layer_id l = layerId) (layers s) = Some layer" and "data layer = []"
  shows "focusOnLayer layerId s =
           Inr (s\<lparr>viewState :=
                    \<lparr>longitude = NaN, latitude = NaN,
                     zoom = (if isUploaded layer = Some True then 15 else 17),
                     pitch = 0, bearing = 0\<rparr>\<rparr>)"
  using assms by (simp add: focusOnLayer_def Let_def js_sub_def)


section \<open>Properties of the drag-translate engine\<close>

lemma map_err_Inr_Cons:
  "map_err f (x # xs) = Inr zs \<longleftrightarrow> (\<exists>y ys. f x = Inr y \<and> map_err f xs = Inr ys \<and> zs = y # ys)"
  by (auto split: sum.splits)


lemma map_err_fixed:
  assumes "\<And>x y. f x = Inr y \<Longrightarrow> f y = Inr y" and "map_err f xs = Inr ys"
  shows "map_err f ys = Inr ys"
  using assms(2)
proof (induction xs arbitrary: ys)
  case Nil
  then show ?case by simp
next
  case (Cons x xs)
  from Cons.prems obtain y ys' where
    y: "f x = Inr y" and r: "map_err f xs = Inr ys'" and e: "ys = y # ys'"
    unfolding map_err_Inr_Cons by blast
  from Cons.IH[OF r] assms(1)[OF y] e show ?case by simp
qed




lemma dragLayer_fixed:
  "dragLayer d original dx dy l = Inr l' \<Longrightarrow> dragLayer d original dx dy l' = Inr l'"
  by (auto simp add: dragLayer_def split: if_splits sum.splits)







lemma handleDrag_inactive:
  assumes "\<not> (isDragging s \<and> (\<exists>d. draggedLayerId s = Some d \<and> d \<noteq> []) \<and>
              dragStartPosition s \<noteq> None \<and> originalLayerData s \<noteq> None \<and> e \<noteq> None)"
  shows "handleDrag e s = Inr s"
  using assms by (auto simp add: handleDrag_def Let_def split: option.splits)














subsection \<open>Azimuth\<close>













section \<open>Properties of the live overlay\<close>







lemma nodeItem_node: "nodeItem nd = Inr it \<Longrightarrow> node it = nd"
  by (auto simp add: nodeItem_def split: sum.splits)








section \<open>Properties of the render pass\<close>

lemma pushLayers_map_err:
  "pushLayers ls deckLayers =
     (case map_err layerPrimitives ls of
        Inl e \<Rightarrow> Inl e
      | Inr pss \<Rightarrow> Inr (deckLayers @ concat pss))"
  by (induction ls arbitrary: deckLayers) (auto split: sum.splits)

lemma map_err_map_Inr: "map_err f xs = Inr ys \<Longrightarrow> map f xs = map Inr ys"
  by (induction xs arbitrary: ys) (auto split: sum.splits)

lemma map_err_all:
  "map_err f xs = Inr ys \<Longrightarrow> (\<And>x y. f x = Inr y \<Longrightarrow> P y) \<Longrightarrow> \<forall>y \<in> set ys. P y"
  by (induction xs arbitrary: ys) (auto split: sum.splits)

lemma layerPrimitives_count:
  assumes "layerPrimitives l = Inr ps"
  shows "ps \<noteq> [] \<and> length ps \<le> 2"
proof (cases "layer_type l")
  case Type_point
  with assms show ?thesis
    by (cases "(case pointDisplayMode l of None \<Rightarrow> Circle | Some m \<Rightarrow> m) = Circle")
      (auto simp add: layerPrimitives_def Let_def)
next
  case Type_polygon
  with assms show ?thesis
    by (cases "data l"; cases "polygon (hd (data l))")
      (auto simp add: layerPrimitives_def Let_def)
next
  case Type_line
  with assms show ?thesis by (auto simp add: layerPrimitives_def Let_def)
next
  case Type_sector
  with assms show ?thesis by (auto simp add: layerPrimitives_def Let_def)
next
  case Type_distance
  with assms show ?thesis by (auto simp add: layerPrimitives_def Let_def)
next
  case Type_area
  with assms show ?thesis
    by (cases "data l"; cases "polygon (hd (data l))")
      (auto simp add: layerPrimitives_def Let_def)
next
  case Type_azimuth
  with assms show ?thesis by (auto simp add: layerPrimitives_def Let_def)
qed

lemma take_filter_beyond:
  "n \<le> length (filter P xs) \<Longrightarrow> take n (filter P (xs @ l # ys)) = take n (filter P (xs @ ys))"
  by simp

lemma take_filter_again: "take n (filter P (take n (filter P ls))) = take n (filter P ls)"
proof -
  have "\<forall>x \<in> set (take n (filter P ls)). P x"
    using set_take_subset[of n "filter P ls"] by auto
  then have "filter P (take n (filter P ls)) = take n (filter P ls)"
    by (rule filter_True)
  then show ?thesis by (simp only: take_take min.idem)
qed

text \<open>
  C10.  A render pass builds primitives from the first 50 visible layers of the store, in
  store order, and from nothing else: a layer that comes after 50 visible ones, and a
  layer that is not visible, can be taken out of the store without changing what is
  rendered; rendering the store and rendering its first 50 visible layers give the same
  result.  When the pass returns, its output is what was already pushed followed by the
  primitives of those layers, one or two for each.  The pass reads the store and does not
  change it.
\<close>

theorem userDeckLayers_first_50_visible:
  "(50 \<le> length (filter visible xs) \<longrightarrow>
      userDeckLayers (xs @ l # ys) deckLayers = userDeckLayers (xs @ ys) deckLayers) \<and>
   (\<not> visible l \<longrightarrow>
      userDeckLayers (xs @ l # ys) deckLayers = userDeckLayers (xs @ ys) deckLayers) \<and>
   userDeckLayers ls deckLayers = userDeckLayers (take 50 (filter visible ls)) deckLayers \<and>
   (\<forall>out. userDeckLayers ls deckLayers = Inr out \<longrightarrow>
      (\<exists>pss. map layerPrimitives (take 50 (filter visible ls)) = map Inr pss \<and>
             out = deckLayers @ concat pss \<and> length pss \<le> 50 \<and>
             (\<forall>ps \<in> set pss. ps \<noteq> [] \<and> length ps \<le> 2)))"
proof (intro conjI impI allI)
  assume "50 \<le> length (filter visible xs)"
  then show "userDeckLayers (xs @ l # ys) deckLayers = userDeckLayers (xs @ ys) deckLayers"
    unfolding userDeckLayers_def by (simp only: take_filter_beyond)
next
  assume "\<not> visible l"
  then show "userDeckLayers (xs @ l # ys) deckLayers = userDeckLayers (xs @ ys) deckLayers"
    unfolding userDeckLayers_def by simp
next
  show "userDeckLayers ls deckLayers = userDeckLayers (take 50 (filter visible ls)) deckLayers"
    unfolding userDeckLayers_def by (simp only: take_filter_again)
next
  fix out
  assume "userDeckLayers ls deckLayers = Inr out"
  then obtain pss where
    m: "map_err layerPrimitives (take 50 (filter visible ls)) = Inr pss"
    and o: "out = deckLayers @ concat pss"
    unfolding userDeckLayers_def pushLayers_map_err by (auto split: sum.splits)
  have "length pss = length (take 50 (filter visible ls))"
    using map_err_map_Inr[OF m] by (metis length_map)
  then have len: "length pss \<le> 50" by simp
  have cnt: "\<forall>ps \<in> set pss. ps \<noteq> [] \<and> length ps \<le> 2"
    by (rule map_err_all[OF m]) (rule layerPrimitives_count)
  from map_err_map_Inr[OF m] o len cnt
  show "\<exists>pss. map layerPrimitives (take 50 (filter visible ls)) = map Inr pss \<and>
             out = deckLayers @ concat pss \<and> length pss \<le> 50 \<and>
             (\<forall>ps \<in> set pss. ps \<noteq> [] \<and> length ps \<le> 2)"
    by blast
qed


theorem userDeckLayers_first_50_visible_witness:
  "50 \<le> length (filter visible (replicate 50 \<lparr>layer_id = ''layer-0-0'',
      name = ''Point 1'', layer_type = Type_point, data = [\<lparr>position = Some (0, 0),
      polygon = None, path = None\<rparr>], color = ''#ff0000'', icon = ''mdi:map-marker'',
      visible = True, radius = Some 12, measurement = None, isUploaded = None,
      pointDisplayMode = Some Circle, iconType = Some Marker, customizeOpen = None,
      folder = Some ''drawn''\<rparr>)) \<and>
   visible \<lparr>layer_id = ''layer-1-0'', name = ''Line 2'', layer_type = Type_line,
       data = [\<lparr>position = None, polygon = None, path = Some [(0, 0), (1, 1)]\<rparr>],
       color = ''#ff0000'', icon = ''mdi:map-marker'', visible = True, radius = None,
       measurement = None, isUploaded = None, pointDisplayMode = None, iconType = None,
       customizeOpen = None, folder = Some ''drawn''\<rparr> \<and>
   userDeckLayers (replicate 50 \<lparr>layer_id = ''layer-0-0'', name = ''Point 1'',
       layer_type = Type_point, data = [\<lparr>position = Some (0, 0), polygon = None,
       path = None\<rparr>], color = ''#ff0000'', icon = ''mdi:map-marker'', visible = True,
       radius = Some 12, measurement = None, isUploaded = None, pointDisplayMode = Some Circle,
       iconType = Some Marker, customizeOpen = None,
       folder = Some ''drawn''\<rparr> @ \<lparr>layer_id = ''layer-1-0'', name = ''Line 2'',
       layer_type = Type_line, data = [\<lparr>position = None, polygon = None, path = Some [(0,
       0), (1, 1)]\<rparr>], color = ''#ff0000'', icon = ''mdi:map-marker'', visible = True,
       radius = None, measurement = None, isUploaded = None, pointDisplayMode = None,
       iconType = None, customizeOpen = None, folder = Some ''drawn''\<rparr> # []) [] =
     userDeckLayers (replicate 50 \<lparr>layer_id = ''layer-0-0'', name = ''Point 1'',
         layer_type = Type_point, data = [\<lparr>position = Some (0, 0), polygon = None,
         path = None\<rparr>], color = ''#ff0000'', icon = ''mdi:map-marker'', visible = True,
         radius = Some 12, measurement = None, isUploaded = None, pointDisplayMode = Some Circle,
         iconType = Some Marker, customizeOpen = None,
         folder = Some ''drawn''\<rparr> @ []) [] \<and>
   \<not> visible \<lparr>layer_id = ''layer-2-0'', name = ''Point 3'', layer_type = Type_point,
       data = [\<lparr>position = Some (0, 0), polygon = None, path = None\<rparr>],
       color = ''#ff0000'', icon = ''mdi:map-marker'', visible = False, radius = Some 12,
       measurement = None, isUploaded = None, pointDisplayMode = Some Circle,
       iconType = Some Marker, customizeOpen = None, folder = Some ''drawn''\<rparr> \<and>
   userDeckLayers ([\<lparr>layer_id = ''layer-0-0'', name = ''Point 1'',
       layer_type = Type_point, data = [\<lparr>position = Some (0, 0), polygon = None,
       path = None\<rparr>], color = ''#ff0000'', icon = ''mdi:map-marker'', visible = True,
       radius = Some 12, measurement = None, isUploaded = None, pointDisplayMode = Some Circle,
       iconType = Some Marker, customizeOpen = None,
       folder = Some ''drawn''\<rparr>] @ \<lparr>layer_id = ''layer-2-0'', name = ''Point 3'',
       layer_type = Type_point, data = [\<lparr>position = Some (0, 0), polygon = None,
       path = None\<rparr>], color = ''#ff0000'', icon = ''mdi:map-marker'', visible = False,
       radius = Some 12, measurement = None, isUploaded = None, pointDisplayMode = Some Circle,
       iconType = Some Marker, customizeOpen = None,
       folder = Some ''drawn''\<rparr> # [\<lparr>layer_id = ''layer-1-0'', name = ''Line 2'',
       layer_type = Type_line, data = [\<lparr>position = None, polygon = None, path = Some [(0,
       0), (1, 1)]\<rparr>], color = ''#ff0000'', icon = ''mdi:map-marker'', visible = True,
       radius = None, measurement = None, isUploaded = None, pointDisplayMode = None,
       iconType = None, customizeOpen = None, folder = Some ''drawn''\<rparr>]) [] =
     userDeckLayers ([\<lparr>layer_id = ''layer-0-0'', name = ''Point 1'',
         layer_type = Type_point, data = [\<lparr>position = Some (0, 0), polygon = None,
         path = None\<rparr>], color = ''#ff0000'', icon = ''mdi:map-marker'', visible = True,
         radius = Some 12, measurement = None, isUploaded = None, pointDisplayMode = Some Circle,
         iconType = Some Marker, customizeOpen = None,
         folder = Some ''drawn''\<rparr>] @ [\<lparr>layer_id = ''layer-1-0'', name = ''Line 2'',
         layer_type = Type_line, data = [\<lparr>position = None, polygon = None,
         path = Some [(0, 0), (1, 1)]\<rparr>], color = ''#ff0000'', icon = ''mdi:map-marker'',
         visible = True, radius = None, measurement = None, isUploaded = None,
         pointDisplayMode = None, iconType = None, customizeOpen = None,
         folder = Some ''drawn''\<rparr>]) [] \<and>
   userDeckLayers [\<lparr>layer_id = ''layer-0-0'', name = ''Point 1'', layer_type = Type_point,
       data = [\<lparr>position = Some (0, 0), polygon = None, path = None\<rparr>],
       color = ''#ff0000'', icon = ''mdi:map-marker'', visible = True, radius = Some 12,
       measurement = None, isUploaded = None, pointDisplayMode = Some Circle,
       iconType = Some Marker, customizeOpen = None, folder = Some ''drawn''\<rparr>,
       \<lparr>layer_id = ''layer-1-0'', name = ''Line 2'', layer_type = Type_line,
       data = [\<lparr>position = None, polygon = None, path = Some [(0, 0), (1, 1)]\<rparr>],
       color = ''#ff0000'', icon = ''mdi:map-marker'', visible = True, radius = None,
       measurement = None, isUploaded = None, pointDisplayMode = None, iconType = None,
       customizeOpen = None, folder = Some ''drawn''\<rparr>] [] =
     Inr (projr (userDeckLayers [\<lparr>layer_id = ''layer-0-0'', name = ''Point 1'',
         layer_type = Type_point, data = [\<lparr>position = Some (0, 0), polygon = None,
         path = None\<rparr>], color = ''#ff0000'', icon = ''mdi:map-marker'', visible = True,
         radius = Some 12, measurement = None, isUploaded = None, pointDisplayMode = Some Circle,
         iconType = Some Marker, customizeOpen = None, folder = Some ''drawn''\<rparr>,
         \<lparr>layer_id = ''layer-1-0'', name = ''Line 2'', layer_type = Type_line,
         data = [\<lparr>position = None, polygon = None, path = Some [(0, 0), (1, 1)]\<rparr>],
         color = ''#ff0000'', icon = ''mdi:map-marker'', visible = True, radius = None,
         measurement = None, isUploaded = None, pointDisplayMode = None, iconType = None,
         customizeOpen = None, folder = Some ''drawn''\<rparr>] [])) \<and>
   (\<exists>pss. map layerPrimitives (take 50 (filter visible [\<lparr>layer_id = ''layer-0-0'',
       name = ''Point 1'', layer_type = Type_point, data = [\<lparr>position = Some (0, 0),
       polygon = None, path = None\<rparr>], color = ''#ff0000'', icon = ''mdi:map-marker'',
       visible = True, radius = Some 12, measurement = None, isUploaded = None,
       pointDisplayMode = Some Circle, iconType = Some Marker, customizeOpen = None,
       folder = Some ''drawn''\<rparr>, \<lparr>layer_id = ''layer-1-0'', name = ''Line 2'',
       layer_type = Type_line, data = [\<lparr>position = None, polygon = None, path = Some [(0,
       0), (1, 1)]\<rparr>], color = ''#ff0000'', icon = ''mdi:map-marker'', visible = True,
       radius = None, measurement = None, isUploaded = None, pointDisplayMode = None,
       iconType = None, customizeOpen = None,
       folder = Some ''drawn''\<rparr>])) = map Inr pss \<and>
          projr (userDeckLayers [\<lparr>layer_id = ''layer-0-0'', name = ''Point 1'',
              layer_type = Type_point, data = [\<lparr>position = Some (0, 0), polygon = None,
              path = None\<rparr>], color = ''#ff0000'', icon = ''mdi:map-marker'',
              visible = True, radius = Some 12, measurement = None, isUploaded = None,
              pointDisplayMode = Some Circle, iconType = Some Marker, customizeOpen = None,
              folder = Some ''drawn''\<rparr>, \<lparr>layer_id = ''layer-1-0'',
              name = ''Line 2'', layer_type = Type_line, data = [\<lparr>position = None,
              polygon = None, path = Some [(0, 0), (1, 1)]\<rparr>], color = ''#ff0000'',
              icon = ''mdi:map-marker'', visible = True, radius = None, measurement = None,
              isUploaded = None, pointDisplayMode = None, iconType = None, customizeOpen = None,
              folder = Some ''drawn''\<rparr>] []) = [] @ concat pss \<and> length pss \<le> 50)"
proof -
  let ?P = "\<lparr>layer_id = ''layer-0-0'', name = ''Point 1'', layer_type = Type_point,
      data = [\<lparr>position = Some (0, 0), polygon = None, path = None\<rparr>],
      color = ''#ff0000'', icon = ''mdi:map-marker'', visible = True, radius = Some 12,
      measurement = None, isUploaded = None, pointDisplayMode = Some Circle,
      iconType = Some Marker, customizeOpen = None, folder = Some ''drawn''\<rparr>"
  let ?L = "\<lparr>layer_id = ''layer-1-0'', name = ''Line 2'', layer_type = Type_line,
      data = [\<lparr>position = None, polygon = None, path = Some [(0, 0), (1, 1)]\<rparr>],
      color = ''#ff0000'', icon = ''mdi:map-marker'', visible = True, radius = None,
      measurement = None, isUploaded = None, pointDisplayMode = None, iconType = None,
      customizeOpen = None, folder = Some ''drawn''\<rparr>"
  let ?H = "\<lparr>layer_id = ''layer-2-0'', name = ''Point 3'', layer_type = Type_point,
      data = [\<lparr>position = Some (0, 0), polygon = None, path = None\<rparr>],
      color = ''#ff0000'', icon = ''mdi:map-marker'', visible = False, radius = Some 12,
      measurement = None, isUploaded = None, pointDisplayMode = Some Circle,
      iconType = Some Marker, customizeOpen = None, folder = Some ''drawn''\<rparr>"
  have h1: "50 \<le> length (filter visible (replicate 50 ?P))" by simp
  have v: "visible ?L" by simp
  have h2: "\<not> visible ?H" by simp
  from userDeckLayers_first_50_visible[of "replicate 50 ?P" ?L "[]" "[]"] h1
  have w1: "userDeckLayers (replicate 50 ?P @ ?L # []) [] =
     userDeckLayers (replicate 50 ?P @ []) []"
    by blast
  from userDeckLayers_first_50_visible[of _ ?H "[?L]" "[]" "[?P]"] h2
  have w2: "userDeckLayers ([?P] @ ?H # [?L]) [] = userDeckLayers ([?P] @ [?L]) []"
    by blast
  have run: "userDeckLayers [?P, ?L] [] = Inr (projr (userDeckLayers [?P, ?L] []))"
    by (simp add: userDeckLayers_def layerPrimitives_def Let_def)
  from userDeckLayers_first_50_visible[of "[]" ?L "[]" "[]" "[?P, ?L]"] run
  have w3: "\<exists>pss. map layerPrimitives (take 50 (filter visible [?P,
      ?L])) = map Inr pss \<and>
          projr (userDeckLayers [?P, ?L] []) = [] @ concat pss \<and> length pss \<le> 50 \<and>
          (\<forall>ps \<in> set pss. ps \<noteq> [] \<and> length ps \<le> 2)"
    by blast
  from h1 v w1 h2 w2 run w3 show ?thesis by blast
qed

end
